theory Spec2Isabelle
  imports Complex_Main "HOL-Library.Word"
begin

section \<open>Token tracker (src/utils/token-tracker.ts)\<close>

text \<open>
  Token counts are JavaScript numbers holding integers; they are modelled as \<open>int\<close>.
  The tracker owns the array \<open>usages\<close> and the optional \<open>budget\<close>; the event emitter
  part of the class has no influence on the totals and is left out.
\<close>

record LanguageModelUsage =
  promptTokens :: int
  completionTokens :: int
  totalTokens :: int

record TokenUsage =
  tool :: string
  usage :: LanguageModelUsage

record SnakeCaseUsage =
  prompt_tokens :: int
  completion_tokens :: int
  total_tokens :: int

record TokenTracker =
  usages :: "TokenUsage list"
  budget :: "int option"

definition newTokenTracker :: "int option \<Rightarrow> TokenTracker" where
  "newTokenTracker b = \<lparr>usages = [], budget = b\<rparr>"

definition trackUsage :: "TokenTracker \<Rightarrow> string \<Rightarrow> LanguageModelUsage \<Rightarrow> TokenTracker" where
  "trackUsage t nm u = t\<lparr>usages := usages t @ [\<lparr>tool = nm, usage = u\<rparr>]\<rparr>"

definition getTotalUsage :: "TokenTracker \<Rightarrow> LanguageModelUsage" where
  "getTotalUsage t =
     foldl (\<lambda>acc tu. acc\<lparr>promptTokens := promptTokens acc + promptTokens (usage tu),
                          completionTokens := completionTokens acc + completionTokens (usage tu),
                          totalTokens := totalTokens acc + totalTokens (usage tu)\<rparr>)
           \<lparr>promptTokens = 0, completionTokens = 0, totalTokens = 0\<rparr> (usages t)"

definition getTotalUsageSnakeCase :: "TokenTracker \<Rightarrow> SnakeCaseUsage" where
  "getTotalUsageSnakeCase t =
     foldl (\<lambda>acc tu. acc\<lparr>prompt_tokens := prompt_tokens acc + promptTokens (usage tu),
                          completion_tokens := completion_tokens acc + completionTokens (usage tu),
                          total_tokens := total_tokens acc + totalTokens (usage tu)\<rparr>)
           \<lparr>prompt_tokens = 0, completion_tokens = 0, total_tokens = 0\<rparr> (usages t)"

definition reset :: "TokenTracker \<Rightarrow> TokenTracker" where
  "reset t = t\<lparr>usages := []\<rparr>"

text \<open>A sequence of \<open>trackUsage\<close> calls, applied in order.\<close>

fun trackAll :: "TokenTracker \<Rightarrow> (string \<times> LanguageModelUsage) list \<Rightarrow> TokenTracker" where
  "trackAll t [] = t"
| "trackAll t ((nm, u) # cs) = trackAll (trackUsage t nm u) cs"

section \<open>Budget mapping of the chat-completions endpoint\<close>

datatype reasoning_effort = low | medium | high

record budget_result =
  tokenBudget :: int
  maxBadAttempts :: int

text \<open>
  An absent (\<open>undefined\<close>) or \<open>null\<close> argument is \<open>None\<close>; the default parameter
  values of the source (\<open>'medium'\<close> and \<open>null\<close>) are what \<open>None\<close> stands for.
\<close>

definition getTokenBudgetAndMaxAttempts ::
  "reasoning_effort option \<Rightarrow> int option \<Rightarrow> budget_result" where
  "getTokenBudgetAndMaxAttempts reasoningEffort maxCompletionTokens =
     (case maxCompletionTokens of
        Some m \<Rightarrow> \<lparr>tokenBudget = m, maxBadAttempts = 1\<rparr>
      | None \<Rightarrow>
         (case reasoningEffort of
            Some low \<Rightarrow> \<lparr>tokenBudget = 100000, maxBadAttempts = 1\<rparr>
          | Some high \<Rightarrow> \<lparr>tokenBudget = 1000000, maxBadAttempts = 2\<rparr>
          | _ \<Rightarrow> \<lparr>tokenBudget = 500000, maxBadAttempts = 1\<rparr>))"

record request_body =
  reasoning_effort :: "reasoning_effort option"
  max_completion_tokens :: "int option"
  budget_tokens :: "int option"
  max_attempts :: "int option"

text \<open>JavaScript truthiness of an optional number: absent and \<open>0\<close> are falsy.\<close>

definition truthy_num :: "int option \<Rightarrow> bool" where
  "truthy_num x = (case x of None \<Rightarrow> False | Some n \<Rightarrow> n \<noteq> 0)"

text \<open>
  The part of the POST handler between the call of \<open>getTokenBudgetAndMaxAttempts\<close> and
  the call of \<open>getResponse\<close>: the pair handed to \<open>getResponse\<close>.
\<close>

definition request_budget :: "request_body \<Rightarrow> budget_result" where
  "request_budget body =
     (let r = getTokenBudgetAndMaxAttempts (reasoning_effort body) (max_completion_tokens body);
          r1 = (if truthy_num (budget_tokens body) then r\<lparr>tokenBudget := the (budget_tokens body)\<rparr> else r);
          r2 = (if truthy_num (max_attempts body) then r1\<lparr>maxBadAttempts := the (max_attempts body)\<rparr> else r1)
      in r2)"

section \<open>Text chunking and natural streaming (server)\<close>

text \<open>
  A JavaScript string is a sequence of UTF-16 code units; \<open>text[i]\<close> and the regular
  expressions of the splitter (none has the \<open>u\<close> flag) work on single code units.
\<close>

type_synonym code_unit = "16 word"
type_synonym jstring = "code_unit list"

text \<open>The class \<open>\s\<close> of a JavaScript regular expression.\<close>

definition is_space :: "code_unit \<Rightarrow> bool" where
  "is_space c = (c = 0x09 \<or> c = 0x0A \<or> c = 0x0B \<or> c = 0x0C \<or> c = 0x0D \<or> c = 0x20
     \<or> c = 0xA0 \<or> c = 0x1680 \<or> (0x2000 \<le> c \<and> c \<le> 0x200A) \<or> c = 0x2028 \<or> c = 0x2029
     \<or> c = 0x202F \<or> c = 0x205F \<or> c = 0x3000 \<or> c = 0xFEFF)"

text \<open>The class of code units U+4E00 to U+9FFF, U+3040 to U+30FF and U+AC00 to U+D7AF.\<close>

definition is_cjk :: "code_unit \<Rightarrow> bool" where
  "is_cjk c = ((0x4E00 \<le> c \<and> c \<le> 0x9FFF) \<or> (0x3040 \<le> c \<and> c \<le> 0x30FF)
     \<or> (0xAC00 \<le> c \<and> c \<le> 0xD7AF))"

text \<open>\<open>/[\s\])}"']/\<close>, tested on \<open>nextChar\<close>; the empty string (no next character) fails.\<close>

definition is_url_end :: "code_unit option \<Rightarrow> bool" where
  "is_url_end n = (case n of None \<Rightarrow> False
     | Some c \<Rightarrow> is_space c \<or> c = 0x5D \<or> c = 0x29 \<or> c = 0x7D \<or> c = 0x22 \<or> c = 0x27)"

text \<open>\<open>/[.!?,;:]/\<close>, tested on \<open>nextChar\<close>.\<close>

definition is_break_punct :: "code_unit option \<Rightarrow> bool" where
  "is_break_punct n = (case n of None \<Rightarrow> False
     | Some c \<Rightarrow> c = 0x2E \<or> c = 0x21 \<or> c = 0x3F \<or> c = 0x2C \<or> c = 0x3B \<or> c = 0x3A)"

text \<open>An unanchored search for a literal, as \<open>String.prototype.match\<close> does.\<close>

fun has_infix :: "jstring \<Rightarrow> jstring \<Rightarrow> bool" where
  "has_infix p [] = (p = [])"
| "has_infix p (x # xs) = (take (length p) (x # xs) = p \<or> has_infix p xs)"

text \<open>\<open>/https?:\/\//\<close>: the window holds \<open>http://\<close> or \<open>https://\<close> somewhere.\<close>

definition matches_scheme :: "jstring \<Rightarrow> bool" where
  "matches_scheme w = (has_infix [0x68, 0x74, 0x74, 0x70, 0x3A, 0x2F, 0x2F] w
     \<or> has_infix [0x68, 0x74, 0x74, 0x70, 0x73, 0x3A, 0x2F, 0x2F] w)"

record split_state =
  chunks :: "jstring list"
  currentChunk :: jstring
  inURL :: bool

definition pushCurrentChunk :: "split_state \<Rightarrow> split_state" where
  "pushCurrentChunk st =
     (if currentChunk st \<noteq> [] then st\<lparr>chunks := chunks st @ [currentChunk st], currentChunk := []\<rparr>
      else st)"

text \<open>
  The \<open>for\<close> loop of \<open>splitTextIntoChunks\<close>, by recursion on the text from index \<open>i\<close>
  on: \<open>c\<close> is \<open>text[i]\<close>, the head of \<open>rest\<close> is \<open>text[i + 1]\<close> (\<open>None\<close> for the
  source's \<open>''\<close>), \<open>take 8 (c # rest)\<close> is \<open>text.slice(i, i + 8)\<close> and \<open>rest = []\<close> is
  \<open>i === text.length - 1\<close>.
\<close>

fun split_loop :: "jstring \<Rightarrow> split_state \<Rightarrow> split_state" where
  "split_loop [] st = st"
| "split_loop (c # rest) st =
     (let nextChar = (case rest of [] \<Rightarrow> None | n # _ \<Rightarrow> Some n);
          st1 = (if c = 0x68 \<and> matches_scheme (take 8 (c # rest))
                 then (pushCurrentChunk st)\<lparr>inURL := True\<rparr> else st)
      in if inURL st1 then
           (let st2 = st1\<lparr>currentChunk := currentChunk st1 @ [c]\<rparr>;
                st3 = (if is_url_end nextChar \<or> rest = []
                       then (pushCurrentChunk st2)\<lparr>inURL := False\<rparr> else st2)
            in split_loop rest st3)
         else if is_cjk c then
           (let st2 = pushCurrentChunk st1 in split_loop rest (st2\<lparr>chunks := chunks st2 @ [[c]]\<rparr>))
         else if is_space c then
           (let st2 = pushCurrentChunk st1 in split_loop rest (st2\<lparr>chunks := chunks st2 @ [[c]]\<rparr>))
         else
           (let st2 = st1\<lparr>currentChunk := currentChunk st1 @ [c]\<rparr>;
                st3 = (if is_break_punct nextChar then pushCurrentChunk st2 else st2)
            in split_loop rest st3))"

definition splitTextIntoChunks :: "jstring \<Rightarrow> jstring list" where
  "splitTextIntoChunks text =
     filter (\<lambda>chunk. chunk \<noteq> [])
       (chunks (pushCurrentChunk (split_loop text \<lparr>chunks = [], currentChunk = [], inURL = False\<rparr>)))"

text \<open>\<open>Array.prototype.indexOf\<close>: the first index holding an equal element, or \<open>-1\<close>.\<close>

fun indexOf :: "'a list \<Rightarrow> 'a \<Rightarrow> int" where
  "indexOf [] y = -1"
| "indexOf (x # xs) y =
     (if x = y then 0 else (let r = indexOf xs y in if r < 0 then -1 else r + 1))"

text \<open>\<open>Array.prototype.slice(start)\<close>: a negative start counts from the end.\<close>

definition slice_from :: "'a list \<Rightarrow> int \<Rightarrow> 'a list" where
  "slice_from xs start =
     (if start < 0 then drop (nat (max (int (length xs) + start) 0)) xs else drop (nat start) xs)"

text \<open>
  The generator \<open>streamTextNaturally\<close>, as the list of strings it yields. The flag
  \<open>streamingState.currentlyStreaming\<close> is written by other handlers while the generator is
  suspended, so \<open>flag i\<close> is the value the generator reads at the top of iteration \<open>i\<close>. The
  delays (\<open>calculateDelay\<close>, burst mode) only pace the yields and are left out.
\<close>

fun stream_loop :: "jstring list \<Rightarrow> (nat \<Rightarrow> bool) \<Rightarrow> nat \<Rightarrow> jstring list \<Rightarrow> jstring list" where
  "stream_loop all_chunks flag i [] = []"
| "stream_loop all_chunks flag i (chunk # rest) =
     (if \<not> flag i then [concat (slice_from all_chunks (indexOf all_chunks chunk))]
      else chunk # stream_loop all_chunks flag (Suc i) rest)"

definition streamTextNaturally :: "jstring \<Rightarrow> (nat \<Rightarrow> bool) \<Rightarrow> jstring list" where
  "streamTextNaturally text flag =
     (let cs = splitTextIntoChunks text in stream_loop cs flag 0 cs)"

section \<open>The agent loop (src/agent.ts)\<close>

text \<open>
  Strings handled by the agent (questions, queries, URLs) are modelled as \<open>string\<close>.
  Whatever the loop only writes and never reads back in a condition (the diary, the
  knowledge items, the prompt texts, \<open>think\<close>, the fields of a reference other than its
  URL) is left out; every variable that a condition of \<open>getResponse\<close> reads is a field of
  the state. Calls to collaborators are recorded in \<open>events\<close>, in the order they are made.
\<close>

datatype js_error = TypeError | ReferenceError

datatype EvaluationType = definitive | freshness | plurality | attribution | completeness | strict

record RepeatEvaluationType =
  eval_type :: EvaluationType
  numEvalsRequired :: int

record EvaluationResponse =
  pass :: bool
  failed_type :: "EvaluationType option"
  improvement_plan :: "string option"

record Reference =
  url :: string

datatype url_target = Idx int | Url string

datatype StepAction =
    AnswerAction string "Reference list" bool
  | ReflectAction "string list"
  | SearchAction "string list"
  | VisitAction "url_target list"
  | CodingAction string

text \<open>\<open>(thisStep as AnswerAction).isFinal\<close>: \<open>undefined\<close>, hence falsy, on other actions.\<close>

fun isFinal :: "StepAction \<Rightarrow> bool" where
  "isFinal (AnswerAction a refs f) = f"
| "isFinal _ = False"

record SERPQuery =
  q :: string
  tbs :: "string option"

datatype role = user | assistant | system_role | tool_role

datatype content_part = TextPart string | ImagePart string

datatype message_content = StringContent string | ArrayContent "content_part list"

record CoreMessage =
  role :: role
  content :: message_content

record allow_flags =
  f_allowReflect :: bool
  f_allowAnswer :: bool
  f_allowRead :: bool
  f_allowSearch :: bool
  f_allowCoding :: bool

datatype event =
    EvaluateQuestion string
  | GenerateObject allow_flags string "string list"
  | TrackAction nat
  | EvaluateAnswer string "EvaluationType list"
  | AnalyzeSteps
  | ExecuteSearchQueries "string list"
  | RewriteQuery
  | ProcessURLs "string list"
  | SolveCoding string

text \<open>
  The collaborators of \<open>getResponse\<close> whose code is not part of the agent: the language
  model, the evaluator, the search provider, the URL tools, the deduplication and sampling
  helpers and the three limits imported from \<open>utils/schemas\<close>. Calls whose result is not
  determined by their arguments (they ask a model or the network) take the value of
  \<open>totalStep\<close> at which they are made.
\<close>

record env =
  MAX_QUERIES_PER_STEP :: nat
  MAX_REFLECT_PER_STEP :: nat
  MAX_URLS_PER_STEP :: nat
  normalizeUrl :: "string option \<Rightarrow> string option"
  chooseK :: "string list \<Rightarrow> nat \<Rightarrow> string list"
  dedupQueries :: "string list \<Rightarrow> string list \<Rightarrow> string list"
  extractUrls :: "string \<Rightarrow> string list"
  evaluateQuestion :: "string \<Rightarrow> EvaluationType list"
  rankFilterKeep :: "nat \<Rightarrow> string list \<Rightarrow> string list \<Rightarrow> string \<Rightarrow> string list"
  sortSelectURLs :: "string list \<Rightarrow> nat \<Rightarrow> string list"
  generateObject :: "nat \<Rightarrow> StepAction"
  evaluateAnswer :: "nat \<Rightarrow> EvaluationResponse"
  searchProvider :: "nat \<Rightarrow> string \<Rightarrow> string option list"
  rewriteQuery :: "nat \<Rightarrow> SERPQuery list"
  processURLs :: "nat \<Rightarrow> string list \<Rightarrow> string list \<times> string list \<times> string list"
  usagesDuring :: "nat \<Rightarrow> (string \<times> LanguageModelUsage) list"

text \<open>The arguments of \<open>getResponse\<close>; an omitted argument takes the default of the source.\<close>

record args =
  arg_question :: "string option"
  arg_tokenBudget :: int
  arg_maxBadAttempts :: int
  arg_existingTracker :: "TokenTracker option"
  arg_messages :: "CoreMessage list option"
  arg_numReturnedURLs :: nat
  arg_noDirectAnswer :: bool
  arg_onlyHostnames :: "string list"

record agent_state =
  question :: string
  messages :: "CoreMessage list"
  step :: nat
  totalStep :: nat
  gaps :: "string list"
  allQuestions :: "string list"
  allKeywords :: "string list"
  weightedURLs :: "string list"
  allowAnswer :: bool
  allowSearch :: bool
  allowRead :: bool
  allowReflect :: bool
  allowCoding :: bool
  thisStep :: StepAction
  allURLs :: "string list"
  visitedURLs :: "string list"
  badURLs :: "string list"
  evaluationMetrics :: "string \<rightharpoonup> RepeatEvaluationType list"
  finalAnswerPIP :: "string list"
  trivialQuestion :: bool
  tokenTracker :: TokenTracker
  events :: "event list"

subsection \<open>String and array helpers\<close>

text \<open>\<open>String.prototype.trim\<close> on the white space a \<open>char\<close> can hold.\<close>

definition is_ws :: "char \<Rightarrow> bool" where
  "is_ws c = (of_char c \<in> {9, 10, 11, 12, 13, 32, 160 :: nat})"

definition trim :: "string \<Rightarrow> string" where
  "trim s = rev (dropWhile is_ws (rev (dropWhile is_ws s)))"

text \<open>\<open>xs[i]\<close> for a number \<open>i\<close>: \<open>undefined\<close> outside the array.\<close>

definition js_index :: "'a list \<Rightarrow> int \<Rightarrow> 'a option" where
  "js_index xs i = (if 0 \<le> i \<and> i < int (length xs) then Some (xs ! nat i) else None)"

text \<open>\<open>xs.splice(start, 1)\<close>: a negative start counts from the end.\<close>

definition splice1 :: "'a list \<Rightarrow> int \<Rightarrow> 'a list" where
  "splice1 xs start =
     (let i = (if start < 0 then nat (max (int (length xs) + start) 0) else nat start)
      in take i xs @ drop (Suc i) xs)"

text \<open>\<open>addToAllURLs\<close> keeps one record per URL; only the keys matter to the loop.\<close>

definition addToAllURLs :: "string \<Rightarrow> string list \<Rightarrow> string list" where
  "addToAllURLs u all = (if u \<in> set all then all else all @ [u])"

fun addAllToAllURLs :: "string list \<Rightarrow> string list \<Rightarrow> string list" where
  "addAllToAllURLs [] all = all"
| "addAllToAllURLs (u # us) all = addAllToAllURLs us (addToAllURLs u all)"

definition log_event :: "event \<Rightarrow> agent_state \<Rightarrow> agent_state" where
  "log_event ev s = s\<lparr>events := events s @ [ev]\<rparr>"

subsection \<open>Entry of getResponse\<close>

text \<open>The text of a message, as the \<open>forEach\<close> over \<open>messages\<close> computes it.\<close>

fun text_parts :: "content_part list \<Rightarrow> string list" where
  "text_parts [] = []"
| "text_parts (TextPart t # ps) = t # text_parts ps"
| "text_parts (ImagePart u # ps) = text_parts ps"

fun join_lines :: "string list \<Rightarrow> string" where
  "join_lines [] = []"
| "join_lines [x] = x"
| "join_lines (x # y # ys) = x @ [CHR 0x0A] @ join_lines (y # ys)"

definition message_text :: "CoreMessage \<Rightarrow> string" where
  "message_text m = (case content m of
       StringContent t \<Rightarrow> trim t
     | ArrayContent ps \<Rightarrow> trim (join_lines (text_parts ps)))"

text \<open>
  The question and the message list after the first statements of \<open>getResponse\<close>. With
  messages, the question is the trimmed last content when that is a string, and the text of
  its last text part, as it is, when it is an array (\<open>''\<close> without a text part). Without
  messages, \<open>question.trim()\<close> is evaluated, which throws on an omitted question.
\<close>

definition extract_question :: "args \<Rightarrow> js_error + (string \<times> CoreMessage list)" where
  "extract_question a =
     (let question0 = map_option trim (arg_question a);
          msgs = map_option (filter (\<lambda>m. role m \<noteq> system_role)) (arg_messages a)
      in case msgs of
           Some (m # ms) \<Rightarrow>
             (case content (last (m # ms)) of
                StringContent t \<Rightarrow> Inr (trim t, m # ms)
              | ArrayContent ps \<Rightarrow>
                  (case rev (text_parts ps) of
                     [] \<Rightarrow> Inr ([], m # ms)
                   | t # _ \<Rightarrow> Inr (t, m # ms)))
         | _ \<Rightarrow>
             (case question0 of
                None \<Rightarrow> Inl TypeError
              | Some qs \<Rightarrow> Inr (qs, [\<lparr>role = user, content = StringContent (trim qs)\<rparr>])))"

definition init_state :: "env \<Rightarrow> args \<Rightarrow> js_error + agent_state" where
  "init_state e a =
     (case extract_question a of
        Inl err \<Rightarrow> Inl err
      | Inr (qs, msgs) \<Rightarrow>
          Inr \<lparr>question = qs, messages = msgs, step = 0, totalStep = 0,
               gaps = [qs], allQuestions = [qs], allKeywords = [], weightedURLs = [],
               allowAnswer = True, allowSearch = True, allowRead = True, allowReflect = True,
               allowCoding = False,
               thisStep = AnswerAction [] [] False,
               allURLs = foldl (\<lambda>all m. addAllToAllURLs (extractUrls e (message_text m)) all) [] msgs,
               visitedURLs = [], badURLs = [], evaluationMetrics = Map.empty,
               finalAnswerPIP = [], trivialQuestion = False,
               tokenTracker = (case arg_existingTracker a of
                                 Some t \<Rightarrow> t | None \<Rightarrow> newTokenTracker (Some (arg_tokenBudget a))),
               events = []\<rparr>)"

subsection \<open>The loop guard\<close>

text \<open>
  \<open>regularBudget = tokenBudget * 0.85\<close>, in exact arithmetic: the budget and the token
  counts are integers, for which the rounding of the double product does not change the
  outcome of the comparison with an integer total.
\<close>

definition regularBudget :: "args \<Rightarrow> real" where
  "regularBudget a = real_of_int (arg_tokenBudget a) * 0.85"

definition loop_guard :: "args \<Rightarrow> agent_state \<Rightarrow> bool" where
  "loop_guard a s = (real_of_int (totalTokens (getTotalUsage (tokenTracker s))) < regularBudget a)"

subsection \<open>One iteration, up to the choice of the action\<close>

definition includesEval :: "RepeatEvaluationType list \<Rightarrow> EvaluationType \<Rightarrow> bool" where
  "includesEval allChecks evalType = list_ex (\<lambda>c. eval_type c = evalType) allChecks"

text \<open>
  The statements from \<open>step++\<close> to the call of \<open>getPrompt\<close>. The result is the state whose
  flags are the ones the prompt and the schema of this step are built from, the current
  question and the \<open>urlList\<close> of the prompt. \<open>gaps[totalStep % gaps.length]\<close> is
  \<open>undefined\<close> for an empty \<open>gaps\<close>, and \<open>currentQuestion.trim()\<close> then throws; so does
  \<open>includesEval\<close> on a missing entry of \<open>evaluationMetrics\<close>.
\<close>

definition begin_iteration :: "env \<Rightarrow> args \<Rightarrow> agent_state \<Rightarrow> js_error + (agent_state \<times> string \<times> string list)" where
  "begin_iteration e a s0 =
     (let s1 = s0\<lparr>step := step s0 + 1, totalStep := totalStep s0 + 1\<rparr>;
          s2 = s1\<lparr>allowReflect := (allowReflect s1 \<and> length (gaps s1) \<le> MAX_REFLECT_PER_STEP e)\<rparr>
      in if gaps s2 = [] then Inl TypeError
         else
           (let currentQuestion = gaps s2 ! (totalStep s2 mod length (gaps s2));
                s3 = (if trim currentQuestion = question s2 \<and> totalStep s2 = 1 then
                        log_event (EvaluateQuestion currentQuestion)
                          (s2\<lparr>evaluationMetrics := (evaluationMetrics s2)(currentQuestion \<mapsto>
                               map (\<lambda>t. \<lparr>eval_type = t, numEvalsRequired = arg_maxBadAttempts a\<rparr>)
                                   (evaluateQuestion e currentQuestion)
                               @ [\<lparr>eval_type = strict, numEvalsRequired = arg_maxBadAttempts a\<rparr>])\<rparr>)
                      else if trim currentQuestion \<noteq> question s2 then
                        s2\<lparr>evaluationMetrics := (evaluationMetrics s2)(currentQuestion \<mapsto> [])\<rparr>
                      else s2)
            in if totalStep s3 = 1 \<and> evaluationMetrics s3 currentQuestion = None then Inl TypeError
               else
                 (let s4 = (if totalStep s3 = 1
                               \<and> includesEval (the (evaluationMetrics s3 currentQuestion)) freshness
                            then s3\<lparr>allowAnswer := False, allowReflect := False\<rparr> else s3);
                      s5 = (if allURLs s4 \<noteq> [] then
                              s4\<lparr>weightedURLs := rankFilterKeep e (totalStep s4) (allURLs s4)
                                                     (visitedURLs s4) currentQuestion\<rparr>
                            else s4);
                      s6 = s5\<lparr>allowRead := (allowRead s5 \<and> length (weightedURLs s5) > 0)\<rparr>;
                      s7 = s6\<lparr>allowSearch := (allowSearch s6 \<and> length (weightedURLs s6) < 200)\<rparr>
                  in Inr (s7, currentQuestion, sortSelectURLs e (weightedURLs s7) 20))))"

definition flags_of :: "agent_state \<Rightarrow> allow_flags" where
  "flags_of s = \<lparr>f_allowReflect = allowReflect s, f_allowAnswer = allowAnswer s,
                 f_allowRead = allowRead s, f_allowSearch = allowSearch s,
                 f_allowCoding = allowCoding s\<rparr>"

text \<open>
  The call of the model with the prompt of this step, \<open>trackAction\<close>, and the reset of the
  five flags to \<open>true\<close>. The list \<open>finalAnswerPIP\<close> goes into the messages only when the
  current question is the original one.
\<close>

text \<open>
  The object built from the model's reply: \<open>action\<close>, \<open>think\<close> and the fields of the chosen
  action. A reply carries no \<open>isFinal\<close>, so the field is absent (falsy) on a fresh step.
\<close>

fun from_reply :: "StepAction \<Rightarrow> StepAction" where
  "from_reply (AnswerAction ans refs f) = AnswerAction ans refs False"
| "from_reply act = act"

definition ask_agent :: "env \<Rightarrow> agent_state \<Rightarrow> string \<Rightarrow> agent_state" where
  "ask_agent e s currentQuestion =
     (let s1 = log_event (GenerateObject (flags_of s) currentQuestion
                  (if currentQuestion = question s then finalAnswerPIP s else [])) s;
          s2 = s1\<lparr>thisStep := from_reply (generateObject e (totalStep s1))\<rparr>;
          s3 = log_event (TrackAction (totalStep s2)) s2
      in s3\<lparr>allowAnswer := True, allowReflect := True, allowRead := True,
            allowSearch := True, allowCoding := True\<rparr>)"

subsection \<open>Dispatch of the chosen action\<close>

text \<open>\<open>[...new Set(xs)]\<close>: the first occurrence of every element, in order.\<close>

fun uniq :: "'a list \<Rightarrow> 'a list" where
  "uniq [] = []"
| "uniq (x # xs) = x # filter (\<lambda>y. y \<noteq> x) (uniq xs)"

text \<open>
  \<open>updateReferences\<close>: references without a URL are dropped, the others get the normalized
  URL, and those whose URL does not normalize are dropped.
\<close>

fun updateReferences :: "env \<Rightarrow> Reference list \<Rightarrow> Reference list" where
  "updateReferences e [] = []"
| "updateReferences e (r # rs) =
     (if url r = [] then updateReferences e rs
      else (case normalizeUrl e (Some (url r)) of
              None \<Rightarrow> updateReferences e rs
            | Some u \<Rightarrow> (if u = [] then updateReferences e rs
                         else \<lparr>url = u\<rparr> # updateReferences e rs)))"

text \<open>
  \<open>processURLs\<close> reads pages; it appends to \<open>visitedURLs\<close>, \<open>badURLs\<close> and (the links it
  finds) to \<open>allURLs\<close>.
\<close>

definition run_processURLs :: "env \<Rightarrow> string list \<Rightarrow> agent_state \<Rightarrow> agent_state" where
  "run_processURLs e urls s =
     (case processURLs e (totalStep s) urls of
        (vis, bad, found) \<Rightarrow>
          (log_event (ProcessURLs urls) s)\<lparr>visitedURLs := visitedURLs s @ vis,
              badURLs := badURLs s @ bad, allURLs := addAllToAllURLs found (allURLs s)\<rparr>)"

definition set_isFinal :: "bool \<Rightarrow> agent_state \<Rightarrow> agent_state" where
  "set_isFinal f s = (case thisStep s of
       AnswerAction ans refs _ \<Rightarrow> s\<lparr>thisStep := AnswerAction ans refs f\<rparr>
     | _ \<Rightarrow> s)"

definition decrement_failed :: "EvaluationResponse \<Rightarrow> RepeatEvaluationType list \<Rightarrow> RepeatEvaluationType list" where
  "decrement_failed evaluation ms =
     filter (\<lambda>m. numEvalsRequired m > 0)
       (map (\<lambda>m. if Some (eval_type m) = failed_type evaluation
                  then m\<lparr>numEvalsRequired := numEvalsRequired m - 1\<rparr> else m) ms)"

text \<open>
  The branch \<open>thisStep.action === 'answer' && thisStep.answer\<close>. The second component of
  the result tells whether the loop is left by \<open>break\<close>.
\<close>

definition dispatch_answer ::
  "env \<Rightarrow> args \<Rightarrow> agent_state \<Rightarrow> string \<Rightarrow> string \<Rightarrow> Reference list \<Rightarrow> js_error + (agent_state \<times> bool)" where
  "dispatch_answer e a s currentQuestion ans refs0 =
     (let refs1 = updateReferences e refs0
      in if totalStep s = 1 \<and> refs1 = [] \<and> \<not> arg_noDirectAnswer a then
           Inr (s\<lparr>thisStep := AnswerAction ans refs1 True, trivialQuestion := True\<rparr>, True)
         else
           (let s1 = (if refs1 \<noteq> [] then
                        (let urls = uniq (map url (filter (\<lambda>r. url r \<notin> set (visitedURLs s)) refs1));
                             sp = run_processURLs e urls s
                         in sp\<lparr>thisStep := AnswerAction ans
                                  (filter (\<lambda>r. url r \<notin> set (badURLs sp)) refs1) False\<rparr>)
                      else s\<lparr>thisStep := AnswerAction ans refs1 False\<rparr>)
            in case evaluationMetrics s1 currentQuestion of
                 None \<Rightarrow> Inl TypeError
               | Some ms \<Rightarrow>
                  (let evaluation = (if ms \<noteq> [] then evaluateAnswer e (totalStep s1)
                                     else \<lparr>pass = True, failed_type = None, improvement_plan = None\<rparr>);
                       s2 = (if ms \<noteq> [] then log_event (EvaluateAnswer currentQuestion (map eval_type ms)) s1
                             else s1)
                   in if trim currentQuestion = question s2 then
                        (let s3 = s2\<lparr>allowCoding := False\<rparr>
                         in if pass evaluation then Inr (set_isFinal True s3, True)
                            else
                              (let ms' = decrement_failed evaluation ms;
                                   s4 = s3\<lparr>evaluationMetrics := (evaluationMetrics s3)(currentQuestion \<mapsto> ms')\<rparr>;
                                   s5 = (case improvement_plan evaluation of
                                           Some plan \<Rightarrow>
                                             (if failed_type evaluation = Some strict \<and> plan \<noteq> []
                                              then s4\<lparr>finalAnswerPIP := finalAnswerPIP s4 @ [plan]\<rparr> else s4)
                                         | None \<Rightarrow> s4)
                               in if ms' = [] then Inr (set_isFinal False s5, True)
                                  else Inr ((log_event AnalyzeSteps s5)\<lparr>allowAnswer := False, step := 0\<rparr>, False)))
                      else if pass evaluation then
                        Inr (s2\<lparr>gaps := splice1 (gaps s2) (indexOf (gaps s2) currentQuestion)\<rparr>, False)
                      else Inr (s2, False))))"

text \<open>The branch \<open>thisStep.action === 'reflect' && thisStep.questionsToAnswer\<close>.\<close>

definition dispatch_reflect :: "env \<Rightarrow> agent_state \<Rightarrow> string list \<Rightarrow> agent_state" where
  "dispatch_reflect e s qs =
     (let newGapQuestions = chooseK e (dedupQueries e qs (allQuestions s)) (MAX_REFLECT_PER_STEP e);
          s1 = s\<lparr>thisStep := ReflectAction newGapQuestions\<rparr>;
          s2 = (if newGapQuestions \<noteq> [] then
                  s1\<lparr>gaps := gaps s1 @ newGapQuestions, allQuestions := allQuestions s1 @ newGapQuestions\<rparr>
                else s1)
      in s2\<lparr>allowReflect := False\<rparr>)"

text \<open>
  \<open>executeSearchQueries\<close>: the queries in order; with \<open>onlyHostnames\<close> the \<open>site:\<close> terms
  are appended; a query without results is skipped; the normalized URLs of the others are
  added to \<open>allURLs\<close> and the query is recorded as searched. The result is the searched
  queries and the new \<open>allURLs\<close>.
\<close>

fun join_sites :: "string list \<Rightarrow> string" where
  "join_sites [] = []"
| "join_sites [h] = h"
| "join_sites (h # h' # hs) = h @ '' OR site:'' @ join_sites (h' # hs)"

fun normalized_urls :: "env \<Rightarrow> string option list \<Rightarrow> string list" where
  "normalized_urls e [] = []"
| "normalized_urls e (r # rs) =
     (case normalizeUrl e r of
        None \<Rightarrow> normalized_urls e rs
      | Some u \<Rightarrow> (if u = [] then normalized_urls e rs else u # normalized_urls e rs))"

fun search_each :: "env \<Rightarrow> nat \<Rightarrow> string list \<Rightarrow> SERPQuery list \<Rightarrow> string list \<Rightarrow> string list \<times> string list" where
  "search_each e n onlyHostnames [] all = ([], all)"
| "search_each e n onlyHostnames (query # rest) all =
     (let q' = (if onlyHostnames \<noteq> [] then q query @ '' site:'' @ join_sites onlyHostnames else q query);
          results = searchProvider e n q'
      in if results = [] then search_each e n onlyHostnames rest all
         else (case search_each e n onlyHostnames rest (addAllToAllURLs (normalized_urls e results) all) of
                 (searched, all') \<Rightarrow> (q' # searched, all')))"

definition executeSearchQueries ::
  "env \<Rightarrow> string list \<Rightarrow> SERPQuery list \<Rightarrow> agent_state \<Rightarrow> string list \<times> agent_state" where
  "executeSearchQueries e onlyHostnames keywordsQueries s =
     (let s1 = log_event (ExecuteSearchQueries (map q keywordsQueries)) s
      in case search_each e (totalStep s1) onlyHostnames keywordsQueries (allURLs s1) of
           (searched, all') \<Rightarrow> (searched, s1\<lparr>allURLs := all'\<rparr>))"

text \<open>
  The rewritten queries that survive the second deduplication, each mapped back to the
  query object it came from: \<open>{q}\<close> alone when several objects carry the text, the single
  match otherwise, and \<open>undefined\<close> (\<open>None\<close>) when no object carries it.
\<close>

definition match_back :: "SERPQuery list \<Rightarrow> string \<Rightarrow> SERPQuery option" where
  "match_back keywordsQueries qq =
     (let matches = filter (\<lambda>kq. q kq = qq) keywordsQueries
      in if length matches > 1 then Some \<lparr>q = qq, tbs = None\<rparr>
         else (case matches of [] \<Rightarrow> None | m # _ \<Rightarrow> Some m))"

fun all_defined :: "'a option list \<Rightarrow> 'a list option" where
  "all_defined [] = Some []"
| "all_defined (None # xs) = None"
| "all_defined (Some x # xs) = map_option (\<lambda>ys. x # ys) (all_defined xs)"

text \<open>
  The branch \<open>thisStep.action === 'search' && thisStep.searchRequests\<close>. Reading \<open>.q\<close> of
  an \<open>undefined\<close> query in the second pass throws.
\<close>

definition dispatch_search ::
  "env \<Rightarrow> args \<Rightarrow> agent_state \<Rightarrow> string list \<Rightarrow> js_error + agent_state" where
  "dispatch_search e a s reqs =
     (let searchRequests = chooseK e (dedupQueries e reqs []) (MAX_QUERIES_PER_STEP e);
          s1 = s\<lparr>thisStep := SearchAction searchRequests\<rparr>
      in case executeSearchQueries e [] (map (\<lambda>x. \<lparr>q = x, tbs = None\<rparr>) searchRequests) s1 of
           (searched1, s2) \<Rightarrow>
             (let s3 = s2\<lparr>allKeywords := allKeywords s2 @ searched1\<rparr>;
                  s4 = log_event RewriteQuery s3;
                  keywordsQueries = rewriteQuery e (totalStep s4);
                  qOnly = map q (filter (\<lambda>kq. q kq \<noteq> []) keywordsQueries);
                  uniqQOnly = chooseK e (dedupQueries e qOnly (allKeywords s4)) (MAX_QUERIES_PER_STEP e);
                  keywordsQueries' = map (match_back keywordsQueries) uniqQOnly
              in if keywordsQueries' = [] then Inr (s4\<lparr>allowSearch := False\<rparr>)
                 else
                   (case all_defined keywordsQueries' of
                      None \<Rightarrow> Inl TypeError
                    | Some kqs \<Rightarrow>
                        (case executeSearchQueries e (arg_onlyHostnames a) kqs s4 of
                           (searched2, s5) \<Rightarrow>
                             (let s6 = (if searched2 \<noteq> []
                                        then s5\<lparr>allKeywords := allKeywords s5 @ searched2\<rparr> else s5)
                              in Inr (s6\<lparr>allowSearch := False\<rparr>))))))"

text \<open>
  The branch \<open>thisStep.action === 'visit' && thisStep.URLTargets?.length && urlList?.length\<close>.
\<close>

fun target_url :: "env \<Rightarrow> string list \<Rightarrow> url_target \<Rightarrow> string option" where
  "target_url e urlList (Idx i) = normalizeUrl e (js_index urlList (i - 1))"
| "target_url e urlList (Url u) = normalizeUrl e None"

fun visit_targets :: "env \<Rightarrow> string list \<Rightarrow> string list \<Rightarrow> url_target list \<Rightarrow> string list" where
  "visit_targets e urlList visited [] = []"
| "visit_targets e urlList visited (t # ts) =
     (case target_url e urlList t of
        None \<Rightarrow> visit_targets e urlList visited ts
      | Some u \<Rightarrow> (if u \<noteq> [] \<and> u \<notin> set visited then u # visit_targets e urlList visited ts
                   else visit_targets e urlList visited ts))"

definition dispatch_visit :: "env \<Rightarrow> agent_state \<Rightarrow> url_target list \<Rightarrow> string list \<Rightarrow> agent_state" where
  "dispatch_visit e s targets urlList =
     (let uniqueURLs = take (MAX_URLS_PER_STEP e)
                         (uniq (visit_targets e urlList (visitedURLs s) targets @ weightedURLs s));
          s1 = s\<lparr>thisStep := VisitAction (map Url uniqueURLs)\<rparr>;
          s2 = (if uniqueURLs \<noteq> [] then run_processURLs e uniqueURLs s1 else s1)
      in s2\<lparr>allowRead := False\<rparr>)"

text \<open>The branch \<open>thisStep.action === 'coding' && thisStep.codingIssue\<close>.\<close>

definition dispatch_coding :: "env \<Rightarrow> agent_state \<Rightarrow> string \<Rightarrow> agent_state" where
  "dispatch_coding e s issue = (log_event (SolveCoding issue) s)\<lparr>allowCoding := False\<rparr>"

subsection \<open>The loop\<close>

definition track_usages :: "env \<Rightarrow> agent_state \<Rightarrow> agent_state" where
  "track_usages e s = s\<lparr>tokenTracker := trackAll (tokenTracker s) (usagesDuring e (totalStep s))\<rparr>"

text \<open>
  The body of the \<open>while\<close> loop. The token usage that the collaborators report during the
  iteration is in the tracker when the iteration ends.
\<close>

definition dispatch ::
  "env \<Rightarrow> args \<Rightarrow> agent_state \<Rightarrow> string \<Rightarrow> string list \<Rightarrow> js_error + (agent_state \<times> bool)" where
  "dispatch e a s currentQuestion urlList =
     (case thisStep s of
        AnswerAction ans refs f \<Rightarrow>
          (if ans \<noteq> [] then dispatch_answer e a s currentQuestion ans refs else Inr (s, False))
      | ReflectAction qs \<Rightarrow> Inr (dispatch_reflect e s qs, False)
      | SearchAction reqs \<Rightarrow>
          (case dispatch_search e a s reqs of Inl err \<Rightarrow> Inl err | Inr s' \<Rightarrow> Inr (s', False))
      | VisitAction targets \<Rightarrow>
          (if targets \<noteq> [] \<and> urlList \<noteq> [] then Inr (dispatch_visit e s targets urlList, False)
           else Inr (s, False))
      | CodingAction issue \<Rightarrow>
          (if issue \<noteq> [] then Inr (dispatch_coding e s issue, False) else Inr (s, False)))"

definition iteration :: "env \<Rightarrow> args \<Rightarrow> agent_state \<Rightarrow> js_error + (agent_state \<times> bool)" where
  "iteration e a s0 =
     (case begin_iteration e a s0 of
        Inl err \<Rightarrow> Inl err
      | Inr (s, currentQuestion, urlList) \<Rightarrow>
          (case dispatch e a (ask_agent e s currentQuestion) currentQuestion urlList of
             Inl err \<Rightarrow> Inl err
           | Inr (s', brk) \<Rightarrow> Inr (track_usages e s', brk)))"

text \<open>
  The \<open>while\<close> loop, for at most \<open>fuel\<close> iterations. The first component lists the
  states in which the iterations that were run began. The second is \<open>None\<close> when the fuel
  runs out before the loop ends, the error when a statement throws, and the state after
  the loop otherwise.
\<close>

fun run_loop ::
  "env \<Rightarrow> args \<Rightarrow> nat \<Rightarrow> agent_state \<Rightarrow> agent_state list \<times> (js_error + agent_state) option" where
  "run_loop e a 0 s = ([], if loop_guard a s then None else Some (Inr s))"
| "run_loop e a (Suc n) s =
     (if loop_guard a s then
        (case iteration e a s of
           Inl err \<Rightarrow> ([s], Some (Inl err))
         | Inr (s', brk) \<Rightarrow>
             (if brk then ([s], Some (Inr s'))
              else (case run_loop e a n s' of (starts, r) \<Rightarrow> (s # starts, r))))
      else ([], Some (Inr s)))"

definition main_loop :: "env \<Rightarrow> args \<Rightarrow> nat \<Rightarrow> agent_state \<Rightarrow> (js_error + agent_state) option" where
  "main_loop e a fuel s = snd (run_loop e a fuel s)"

definition iteration_starts :: "env \<Rightarrow> args \<Rightarrow> nat \<Rightarrow> agent_state \<Rightarrow> agent_state list" where
  "iteration_starts e a fuel s = fst (run_loop e a fuel s)"

subsection \<open>After the loop\<close>

text \<open>
  The identifiers that are bound where the forced-answer branch of \<open>getResponse\<close> calls
  \<open>getResponse\<close>: the imports and top-level declarations of the module, the parameters and
  locals of \<open>getResponse\<close>, the locals of the branch, and the globals the module uses.
\<close>

definition bound_identifiers :: "string list" where
  "bound_identifiers =
     [''ZodObject'', ''CoreMessage'', ''SEARCH_PROVIDER'', ''STEP_SLEEP'', ''fs'', ''SafeSearchType'',
      ''duckSearch'', ''braveSearch'', ''rewriteQuery'', ''dedupQueries'', ''evaluateAnswer'',
      ''evaluateQuestion'', ''analyzeSteps'', ''TokenTracker'', ''ActionTracker'', ''search'',
      ''zodToJsonSchema'', ''ObjectGeneratorSafe'', ''CodeSandbox'', ''serperSearch'', ''addToAllURLs'',
      ''rankURLs'', ''filterURLs'', ''normalizeUrl'', ''sortSelectURLs'', ''getLastModified'',
      ''keepKPerHostname'', ''processURLs'', ''fixBadURLMdLinks'', ''extractUrlsWithDescription'',
      ''buildMdFromAnswer'', ''chooseK'', ''convertHtmlTablesToMd'', ''fixCodeBlockIndentation'',
      ''removeExtraLineBreaks'', ''removeHTMLtags'', ''repairMarkdownFinal'',
      ''repairMarkdownFootnotesOuter'', ''MAX_QUERIES_PER_STEP'', ''MAX_REFLECT_PER_STEP'',
      ''MAX_URLS_PER_STEP'', ''Schemas'', ''formatDateBasedOnType'', ''formatDateRange'', ''fixMarkdown'',
      ''repairUnknownChars'', ''sleep'', ''BuildMsgsFromKnowledge'', ''composeMsgs'', ''getPrompt'',
      ''allContext'', ''updateContext'', ''updateReferences'', ''executeSearchQueries'', ''includesEval'',
      ''getResponse'', ''storeContext'', ''main'',
      ''question'', ''tokenBudget'', ''maxBadAttempts'', ''existingContext'', ''messages'',
      ''numReturnedURLs'', ''noDirectAnswer'', ''boostHostnames'', ''badHostnames'', ''onlyHostnames'',
      ''step'', ''totalStep'', ''SchemaGen'', ''context'', ''generator'', ''schema'', ''gaps'',
      ''allQuestions'', ''allKeywords'', ''allKnowledge'', ''diaryContext'', ''weightedURLs'',
      ''allowAnswer'', ''allowSearch'', ''allowRead'', ''allowReflect'', ''allowCoding'',
      ''msgWithKnowledge'', ''thisStep'', ''allURLs'', ''visitedURLs'', ''badURLs'',
      ''evaluationMetrics'', ''regularBudget'', ''finalAnswerPIP'', ''trivialQuestion'',
      ''system'', ''systemToBeast'', ''beastResponse'',
      ''console'', ''process'', ''Promise'', ''Set'', ''Object'', ''Array'', ''Date'', ''Math'', ''Error'',
      ''setTimeout'', ''undefined'']"

text \<open>Reading an identifier that is not bound throws a \<open>ReferenceError\<close>.\<close>

definition read_identifier :: "string \<Rightarrow> js_error + unit" where
  "read_identifier name = (if name \<in> set bound_identifiers then Inr () else Inl ReferenceError)"

text \<open>
  The forced-answer branch (\<open>if (!thisStep.isFinal)\<close>). It increments the counters and
  builds the prompt, the schema and the messages, which calls no collaborator. Its one call
  is \<open>getResponse(question, context, async () => ..., SchemaGen, async (r) => ..., skipEval,
  finalAnswerPIP)\<close>. The arguments are evaluated first, in order, and \<open>skipEval\<close> is read
  before the call is made. Were it bound, the callee would receive a function as
  \<open>messages\<close> and throw at \<open>messages?.filter\<close>, a function having no \<open>filter\<close>.
  The callback that would set \<open>isFinal\<close> is never invoked.
\<close>

definition beast_mode :: "env \<Rightarrow> args \<Rightarrow> agent_state \<Rightarrow> js_error + agent_state" where
  "beast_mode e a s =
     (let s1 = s\<lparr>step := step s + 1, totalStep := totalStep s + 1\<rparr>
      in case read_identifier ''skipEval'' of
           Inl err \<Rightarrow> Inl err
         | Inr _ \<Rightarrow> Inl TypeError)"

text \<open>
  The value \<open>getResponse\<close> resolves to. The Markdown rendering \<open>mdAnswer\<close> of the
  answer is produced by text tools outside the agent and is left out.
\<close>

record response =
  result :: StepAction
  res_tracker :: TokenTracker
  res_visitedURLs :: "string list"
  res_readURLs :: "string list"
  res_allURLs :: "string list"
  res_events :: "event list"

definition finish :: "args \<Rightarrow> agent_state \<Rightarrow> response" where
  "finish a s =
     \<lparr>result = thisStep s, res_tracker = tokenTracker s,
      res_visitedURLs = take (arg_numReturnedURLs a) (weightedURLs s),
      res_readURLs = filter (\<lambda>u. u \<notin> set (badURLs s)) (visitedURLs s),
      res_allURLs = weightedURLs s, res_events = events s\<rparr>"

text \<open>The run of \<open>getResponse\<close> up to the end of its loop.\<close>

definition run_main :: "env \<Rightarrow> args \<Rightarrow> nat \<Rightarrow> (js_error + agent_state) option" where
  "run_main e a fuel =
     (case init_state e a of Inl err \<Rightarrow> Some (Inl err) | Inr s0 \<Rightarrow> main_loop e a fuel s0)"

text \<open>
  \<open>getResponse\<close> with \<open>fuel\<close> iterations of the loop at most: \<open>None\<close> when the loop has
  not ended by then, \<open>Inl\<close> when the promise is rejected, \<open>Inr\<close> the resolved value.
\<close>

definition getResponse :: "env \<Rightarrow> args \<Rightarrow> nat \<Rightarrow> (js_error + response) option" where
  "getResponse e a fuel =
     (case run_main e a fuel of
        None \<Rightarrow> None
      | Some (Inl err) \<Rightarrow> Some (Inl err)
      | Some (Inr s) \<Rightarrow>
          (if \<not> isFinal (thisStep s) then
             (case beast_mode e a s of
                Inl err \<Rightarrow> Some (Inl err)
              | Inr s' \<Rightarrow> Some (Inr (finish a s')))
           else Some (Inr (finish a s))))"

subsection \<open>Observations\<close>

text \<open>The states in which the iterations of a run of \<open>getResponse\<close> begin.\<close>

definition run_starts :: "env \<Rightarrow> args \<Rightarrow> nat \<Rightarrow> agent_state list" where
  "run_starts e a fuel =
     (case init_state e a of Inl err \<Rightarrow> [] | Inr s0 \<Rightarrow> iteration_starts e a fuel s0)"

text \<open>
  The length of the ranked, filtered and capped URL list of an iteration and the flags
  its prompt and schema are built from.
\<close>

definition prompt_flags :: "env \<Rightarrow> args \<Rightarrow> agent_state \<Rightarrow> js_error + (nat \<times> allow_flags)" where
  "prompt_flags e a s =
     (case begin_iteration e a s of
        Inl err \<Rightarrow> Inl err
      | Inr (s', currentQuestion, urlList) \<Rightarrow> Inr (length (weightedURLs s'), flags_of s'))"

text \<open>The events of evaluating an answer, searching and reading pages.\<close>

fun is_eval_search_visit :: "event \<Rightarrow> bool" where
  "is_eval_search_visit (EvaluateAnswer t ts) = True"
| "is_eval_search_visit (ExecuteSearchQueries qs) = True"
| "is_eval_search_visit (ProcessURLs us) = True"
| "is_eval_search_visit ev = False"

subsection \<open>Sample collaborators\<close>

text \<open>
  A set of collaborators on which the definitions can be run: sampling takes the first
  \<open>k\<close>, deduplication drops repeated and already known strings, every URL normalizes to
  itself, every page is read with success, the evaluator passes, searches return nothing,
  and every iteration costs 20 tokens. The model always answers \<open>hello\<close> without
  references. The samples below override single collaborators.
\<close>

definition sample_env :: env where
  "sample_env =
     \<lparr>MAX_QUERIES_PER_STEP = 5, MAX_REFLECT_PER_STEP = 2, MAX_URLS_PER_STEP = 4,
      normalizeUrl = (\<lambda>u. u),
      chooseK = (\<lambda>xs k. take k xs),
      dedupQueries = (\<lambda>new old. filter (\<lambda>x. x \<notin> set old) (uniq new)),
      extractUrls = (\<lambda>t. []),
      evaluateQuestion = (\<lambda>t. []),
      rankFilterKeep = (\<lambda>n all visited t. filter (\<lambda>u. u \<notin> set visited) all),
      sortSelectURLs = (\<lambda>xs k. take k xs),
      generateObject = (\<lambda>n. AnswerAction ''hello'' [] False),
      evaluateAnswer = (\<lambda>n. \<lparr>pass = True, failed_type = None, improvement_plan = None\<rparr>),
      searchProvider = (\<lambda>n t. []),
      rewriteQuery = (\<lambda>n. []),
      processURLs = (\<lambda>n urls. (urls, [], [])),
      usagesDuring = (\<lambda>n. [(''agent'', \<lparr>promptTokens = 10, completionTokens = 10, totalTokens = 20\<rparr>)])\<rparr>"

definition sample_args :: args where
  "sample_args =
     \<lparr>arg_question = None, arg_tokenBudget = 1000, arg_maxBadAttempts = 1,
      arg_existingTracker = None,
      arg_messages = Some [\<lparr>role = user, content = StringContent ''hi''\<rparr>],
      arg_numReturnedURLs = 100, arg_noDirectAnswer = False, arg_onlyHostnames = []\<rparr>"

definition sample_state :: agent_state where
  "sample_state =
     \<lparr>question = ''hi'', messages = [\<lparr>role = user, content = StringContent ''hi''\<rparr>],
      step = 0, totalStep = 0, gaps = [''hi''], allQuestions = [''hi''], allKeywords = [],
      weightedURLs = [], allowAnswer = True, allowSearch = True, allowRead = True,
      allowReflect = True, allowCoding = False, thisStep = AnswerAction [] [] False,
      allURLs = [], visitedURLs = [], badURLs = [], evaluationMetrics = Map.empty,
      finalAnswerPIP = [], trivialQuestion = False,
      tokenTracker = \<lparr>usages = [], budget = Some 1000\<rparr>, events = []\<rparr>"

text \<open>A store of 200 URLs, all of which are ranked and kept.\<close>

definition sample_urls :: "string list" where
  "sample_urls = map (\<lambda>i. ''https://example.com/'' @ replicate i (CHR ''a'')) [0..<200]"

definition crowded_state :: agent_state where
  "crowded_state = sample_state\<lparr>allURLs := sample_urls\<rparr>"

text \<open>A model that answers with an empty text.\<close>

definition silent_env :: env where
  "silent_env = sample_env\<lparr>generateObject := (\<lambda>n. AnswerAction [] [] False)\<rparr>"

text \<open>A model that answers with one reference.\<close>

definition citing_env :: env where
  "citing_env = sample_env\<lparr>generateObject := (\<lambda>n. AnswerAction ''hello'' [\<lparr>url = ''https://example.com''\<rparr>] False)\<rparr>"

text \<open>A request whose last user message is an array with the text part \<open> hi\<close>.\<close>

definition padded_args :: args where
  "padded_args = sample_args\<lparr>arg_messages :=
      Some [\<lparr>role = user, content = ArrayContent [TextPart '' hi'']\<rparr>]\<rparr>"

text \<open>
  A search provider that finds one page for every query, and a rewriter that proposes the
  queries \<open>a\<close> and \<open>c\<close>.
\<close>

definition rewriting_env :: env where
  "rewriting_env = sample_env\<lparr>searchProvider := (\<lambda>n t. [Some ''https://example.com'']),
      rewriteQuery := (\<lambda>n. [\<lparr>q = ''a'', tbs = None\<rparr>, \<lparr>q = ''c'', tbs = None\<rparr>])\<rparr>"

section \<open>Properties\<close>

lemma usages_trackAll:
  "usages (trackAll t cs) = usages t @ map (\<lambda>(nm, u). \<lparr>tool = nm, usage = u\<rparr>) cs"
  by (induction cs arbitrary: t) (auto simp: trackUsage_def)

lemma foldl_camel:
  "foldl (\<lambda>acc tu. acc\<lparr>promptTokens := promptTokens acc + promptTokens (usage tu),
                          completionTokens := completionTokens acc + completionTokens (usage tu),
                          totalTokens := totalTokens acc + totalTokens (usage tu)\<rparr>) a us
   = \<lparr>promptTokens = promptTokens a + sum_list (map (\<lambda>tu. promptTokens (usage tu)) us),
      completionTokens = completionTokens a + sum_list (map (\<lambda>tu. completionTokens (usage tu)) us),
      totalTokens = totalTokens a + sum_list (map (\<lambda>tu. totalTokens (usage tu)) us)\<rparr>"
  by (induction us arbitrary: a) (simp_all add: algebra_simps)

lemma foldl_snake:
  "foldl (\<lambda>acc tu. acc\<lparr>prompt_tokens := prompt_tokens acc + promptTokens (usage tu),
                          completion_tokens := completion_tokens acc + completionTokens (usage tu),
                          total_tokens := total_tokens acc + totalTokens (usage tu)\<rparr>) a us
   = \<lparr>prompt_tokens = prompt_tokens a + sum_list (map (\<lambda>tu. promptTokens (usage tu)) us),
      completion_tokens = completion_tokens a + sum_list (map (\<lambda>tu. completionTokens (usage tu)) us),
      total_tokens = total_tokens a + sum_list (map (\<lambda>tu. totalTokens (usage tu)) us)\<rparr>"
  by (induction us arbitrary: a) (simp_all add: algebra_simps)

text \<open>
  Claim C10. After any sequence of \<open>trackUsage\<close> calls on any tracker,
  \<open>getTotalUsageSnakeCase\<close> and \<open>getTotalUsage\<close> report the same three totals, and each
  total is the sum of the corresponding field over all recorded usages.
\<close>

theorem C10_snake_case_agrees:
  "prompt_tokens (getTotalUsageSnakeCase (trackAll t cs)) = promptTokens (getTotalUsage (trackAll t cs))
   \<and> completion_tokens (getTotalUsageSnakeCase (trackAll t cs)) = completionTokens (getTotalUsage (trackAll t cs))
   \<and> total_tokens (getTotalUsageSnakeCase (trackAll t cs)) = totalTokens (getTotalUsage (trackAll t cs))
   \<and> promptTokens (getTotalUsage (trackAll t cs))
       = sum_list (map (\<lambda>tu. promptTokens (usage tu)) (usages t)) + sum_list (map (\<lambda>c. promptTokens (snd c)) cs)
   \<and> completionTokens (getTotalUsage (trackAll t cs))
       = sum_list (map (\<lambda>tu. completionTokens (usage tu)) (usages t)) + sum_list (map (\<lambda>c. completionTokens (snd c)) cs)
   \<and> totalTokens (getTotalUsage (trackAll t cs))
       = sum_list (map (\<lambda>tu. totalTokens (usage tu)) (usages t)) + sum_list (map (\<lambda>c. totalTokens (snd c)) cs)"
  by (simp add: getTotalUsage_def getTotalUsageSnakeCase_def foldl_camel foldl_snake
      usages_trackAll comp_def case_prod_unfold)

text \<open>
  Claim C7 (as amended). With \<open>max_completion_tokens\<close> unset the effort maps to
  (100000, 1) for low, (500000, 1) for medium or absent and (1000000, 2) for high; a set
  \<open>max_completion_tokens\<close> is the token budget; and a provided \<open>budget_tokens\<close> or
  \<open>max_attempts\<close> that is not zero replaces the mapped value handed to \<open>getResponse\<close>.
\<close>

theorem C7_budget_mapping:
  "getTokenBudgetAndMaxAttempts (Some low) None = \<lparr>tokenBudget = 100000, maxBadAttempts = 1\<rparr>
   \<and> getTokenBudgetAndMaxAttempts (Some medium) None = \<lparr>tokenBudget = 500000, maxBadAttempts = 1\<rparr>
   \<and> getTokenBudgetAndMaxAttempts None None = \<lparr>tokenBudget = 500000, maxBadAttempts = 1\<rparr>
   \<and> getTokenBudgetAndMaxAttempts (Some high) None = \<lparr>tokenBudget = 1000000, maxBadAttempts = 2\<rparr>
   \<and> tokenBudget (getTokenBudgetAndMaxAttempts eff (Some m)) = m
   \<and> (budget_tokens body = Some b \<and> b \<noteq> 0 \<longrightarrow> tokenBudget (request_budget body) = b)
   \<and> (max_attempts body = Some a \<and> a \<noteq> 0 \<longrightarrow> maxBadAttempts (request_budget body) = a)
   \<and> (\<not> truthy_num (budget_tokens body) \<longrightarrow> tokenBudget (request_budget body)
        = tokenBudget (getTokenBudgetAndMaxAttempts (reasoning_effort body) (max_completion_tokens body)))
   \<and> (\<not> truthy_num (max_attempts body) \<longrightarrow> maxBadAttempts (request_budget body)
        = maxBadAttempts (getTokenBudgetAndMaxAttempts (reasoning_effort body) (max_completion_tokens body)))"
  by (simp add: getTokenBudgetAndMaxAttempts_def request_budget_def truthy_num_def Let_def)

theorem C7_budget_mapping_witness:
  "tokenBudget (request_budget \<lparr>reasoning_effort = Some high, max_completion_tokens = None,
       budget_tokens = Some 2000, max_attempts = Some 3\<rparr>) = 2000
   \<and> maxBadAttempts (request_budget \<lparr>reasoning_effort = Some high, max_completion_tokens = None,
       budget_tokens = Some 2000, max_attempts = Some 3\<rparr>) = 3"
  using C7_budget_mapping [of None 0
      "\<lparr>reasoning_effort = Some high, max_completion_tokens = None,
        budget_tokens = Some 2000, max_attempts = Some 3\<rparr>" 2000 3]
  by simp

text \<open>
  Claim C7 as stated fails: a request that provides \<open>budget_tokens = 0\<close> and
  \<open>max_attempts = 0\<close> keeps the mapped values, because the handler tests the fields for
  truthiness.
\<close>

theorem C7_zero_override_counterexample:
  "tokenBudget (request_budget \<lparr>reasoning_effort = None, max_completion_tokens = None,
       budget_tokens = Some 0, max_attempts = Some 0\<rparr>) = 500000
   \<and> maxBadAttempts (request_budget \<lparr>reasoning_effort = None, max_completion_tokens = None,
       budget_tokens = Some 0, max_attempts = Some 0\<rparr>) = 1"
  by (simp add: getTokenBudgetAndMaxAttempts_def request_budget_def truthy_num_def Let_def)

lemma pushCurrentChunk_concat:
  "concat (chunks (pushCurrentChunk st)) @ currentChunk (pushCurrentChunk st)
     = concat (chunks st) @ currentChunk st"
  by (simp add: pushCurrentChunk_def)

lemma split_loop_concat:
  "concat (chunks (split_loop xs st)) @ currentChunk (split_loop xs st)
     = concat (chunks st) @ currentChunk st @ xs"
proof (induction xs arbitrary: st)
  case Nil
  show ?case by simp
next
  case (Cons c rest)
  show ?case
    by (simp add: Cons.IH Let_def pushCurrentChunk_def)
qed

lemma concat_filter_nonempty: "concat (filter (\<lambda>c. c \<noteq> []) xss) = concat xss"
  by (induction xss) auto

text \<open>
  Claim C9. The chunks returned by \<open>splitTextIntoChunks\<close>, concatenated in order, give
  back the input string, and no chunk is empty.
\<close>

theorem C9_split_concat:
  "concat (splitTextIntoChunks s) = s \<and> [] \<notin> set (splitTextIntoChunks s)"
proof
  let ?st = "split_loop s \<lparr>chunks = [], currentChunk = [], inURL = False\<rparr>"
  have "concat (chunks (pushCurrentChunk ?st)) @ currentChunk (pushCurrentChunk ?st) = s"
    by (simp add: pushCurrentChunk_concat split_loop_concat)
  moreover have "currentChunk (pushCurrentChunk ?st) = []"
    by (simp add: pushCurrentChunk_def)
  ultimately show "concat (splitTextIntoChunks s) = s"
    by (simp add: splitTextIntoChunks_def concat_filter_nonempty)
  show "[] \<notin> set (splitTextIntoChunks s)"
    by (simp add: splitTextIntoChunks_def)
qed

theorem C9_split_concat_witness:
  "concat (splitTextIntoChunks [0x68, 0x69, 0x2E]) = [0x68, 0x69, 0x2E]
   \<and> [] \<notin> set (splitTextIntoChunks [0x68, 0x69, 0x2E])"
  by (rule C9_split_concat)

text \<open>
  Claim C8 fails on the code. The text \<open>a b c\<close> splits into the chunks \<open>a\<close>, space, \<open>b\<close>,
  space, \<open>c\<close>. When the flag is read as false at the fourth chunk (the second space),
  \<open>chunks.indexOf(chunk)\<close> finds the first space, at index 1, and the generator yields
  \<open> b c\<close> after \<open>a\<close>, space and \<open>b\<close>: the text \<open>b\<close> and a space are emitted twice.
\<close>

theorem C8_stream_duplicates:
  "streamTextNaturally [0x61, 0x20, 0x62, 0x20, 0x63] (\<lambda>i. i < 3)
     = [[0x61], [0x20], [0x62], [0x20, 0x62, 0x20, 0x63]]
   \<and> concat (streamTextNaturally [0x61, 0x20, 0x62, 0x20, 0x63] (\<lambda>i. i < 3))
     = [0x61, 0x20, 0x62, 0x20, 0x62, 0x20, 0x63]"
  by (simp add: streamTextNaturally_def splitTextIntoChunks_def pushCurrentChunk_def Let_def
      is_space_def is_cjk_def is_break_punct_def is_url_end_def matches_scheme_def slice_from_def)
section \<open>Properties of the agent loop\<close>

lemma trim_hi: "trim ''hi'' = ''hi''"
  by (simp add: trim_def is_ws_def)

lemma init_sample: "init_state sample_env sample_args = Inr sample_state"
  by (simp add: init_state_def extract_question_def sample_args_def sample_env_def
      sample_state_def trim_hi newTokenTracker_def)

lemma iteration_starts_0: "iteration_starts e a 0 s = []"
  by (simp add: iteration_starts_def)

lemma iteration_starts_Suc:
  "iteration_starts e a (Suc n) s =
     (if loop_guard a s then
        s # (case iteration e a s of
               Inl err \<Rightarrow> []
             | Inr (s', brk) \<Rightarrow> (if brk then [] else iteration_starts e a n s'))
      else [])"
  by (simp add: iteration_starts_def split: sum.splits prod.splits)

lemma main_loop_0: "main_loop e a 0 s = (if loop_guard a s then None else Some (Inr s))"
  by (simp add: main_loop_def)

lemma main_loop_Suc:
  "main_loop e a (Suc n) s =
     (if loop_guard a s then
        (case iteration e a s of
           Inl err \<Rightarrow> Some (Inl err)
         | Inr (s', brk) \<Rightarrow> (if brk then Some (Inr s') else main_loop e a n s'))
      else Some (Inr s))"
  by (simp add: main_loop_def split: sum.splits prod.splits)

lemma run_loop_fst_Suc:
  "loop_guard a s \<Longrightarrow> s \<in> set (iteration_starts e a (Suc n) s)"
  by (simp add: iteration_starts_Suc)

lemma iteration_starts_guard:
  "s \<in> set (iteration_starts e a n s0) \<Longrightarrow> loop_guard a s"
proof (induction n arbitrary: s0)
  case 0
  then show ?case by (simp add: iteration_starts_def)
next
  case (Suc n)
  show ?case
  proof (cases "s = s0")
    case True
    with Suc.prems show ?thesis
      by (auto simp: iteration_starts_Suc split: if_splits)
  next
    case False
    with Suc.prems obtain s' where "s \<in> set (iteration_starts e a n s')"
      by (auto simp: iteration_starts_Suc split: if_splits sum.splits prod.splits)
    then show ?thesis by (rule Suc.IH)
  qed
qed

lemma loop_stops:
  "\<not> loop_guard a s0 \<Longrightarrow> iteration_starts e a n s0 = [] \<and> main_loop e a n s0 = Some (Inr s0)"
  by (cases n) (simp_all add: iteration_starts_0 iteration_starts_Suc main_loop_0 main_loop_Suc)

text \<open>
  Claim C2. Every iteration of the main loop begins in a state whose total token usage
  is strictly below 0.85 times the token budget, and from a state whose usage has reached
  0.85 times the budget no iteration begins: the loop ends at once, in that state.
\<close>

theorem C2_loop_guard:
  "(\<forall>s \<in> set (iteration_starts e a n s0).
      real_of_int (totalTokens (getTotalUsage (tokenTracker s))) < real_of_int (arg_tokenBudget a) * 0.85)
   \<and> (\<not> real_of_int (totalTokens (getTotalUsage (tokenTracker s0))) < real_of_int (arg_tokenBudget a) * 0.85
        \<longrightarrow> iteration_starts e a n s0 = [] \<and> main_loop e a n s0 = Some (Inr s0))"
proof
  show "\<forall>s \<in> set (iteration_starts e a n s0).
      real_of_int (totalTokens (getTotalUsage (tokenTracker s))) < real_of_int (arg_tokenBudget a) * 0.85"
    using iteration_starts_guard [of _ e a n s0]
    by (auto simp: loop_guard_def regularBudget_def)
  show "\<not> real_of_int (totalTokens (getTotalUsage (tokenTracker s0))) < real_of_int (arg_tokenBudget a) * 0.85
        \<longrightarrow> iteration_starts e a n s0 = [] \<and> main_loop e a n s0 = Some (Inr s0)"
    using loop_stops [of a s0 e n]
    by (simp add: loop_guard_def regularBudget_def)
qed

theorem C2_loop_guard_witness:
  "sample_state \<in> set (iteration_starts sample_env sample_args 1 sample_state)
   \<and> real_of_int (totalTokens (getTotalUsage (tokenTracker sample_state)))
       < real_of_int (arg_tokenBudget sample_args) * 0.85"
proof -
  have g: "loop_guard sample_args sample_state"
    by (simp add: loop_guard_def regularBudget_def sample_args_def sample_state_def getTotalUsage_def)
  have m: "sample_state \<in> set (iteration_starts sample_env sample_args 1 sample_state)"
    using run_loop_fst_Suc [OF g, of sample_env 0] by simp
  from C2_loop_guard [of sample_env sample_args 1 sample_state] m show ?thesis
    by blast
qed

lemma begin_iteration_flags:
  assumes "begin_iteration e a s = Inr (s', cq, ul)"
  shows "allowRead s' = (allowRead s \<and> weightedURLs s' \<noteq> [])"
    and "allowSearch s' = (allowSearch s \<and> length (weightedURLs s') < 200)"
  using assms
  by (auto simp: begin_iteration_def Let_def log_event_def split: if_splits)

text \<open>
  Claim C6 (as amended). With \<open>n\<close> the length of the ranked, filtered and capped URL
  list of an iteration, the prompt of that iteration offers the visit action exactly when
  the previous step left it enabled and \<open>n > 0\<close>, and the search action exactly when the
  previous step left it enabled and \<open>n < 200\<close>: an empty list disables visit, and a list
  of 200 or more URLs disables search.
\<close>

theorem C6_allow_flags:
  "prompt_flags e a s = Inr (n, fl) \<Longrightarrow>
     f_allowRead fl = (allowRead s \<and> n > 0) \<and> f_allowSearch fl = (allowSearch s \<and> n < 200)"
  using begin_iteration_flags [of e a s]
  by (auto simp: prompt_flags_def flags_of_def split: sum.splits)

lemma length_sample_urls: "length sample_urls = 200"
  by (simp add: sample_urls_def)

theorem C6_allow_flags_witness:
  "prompt_flags sample_env sample_args sample_state
     = Inr (0, \<lparr>f_allowReflect = True, f_allowAnswer = True, f_allowRead = False,
                f_allowSearch = True, f_allowCoding = False\<rparr>)
   \<and> f_allowRead \<lparr>f_allowReflect = True, f_allowAnswer = True, f_allowRead = False,
                f_allowSearch = True, f_allowCoding = False\<rparr>
       = (allowRead sample_state \<and> (0::nat) > 0)
   \<and> f_allowSearch \<lparr>f_allowReflect = True, f_allowAnswer = True, f_allowRead = False,
                f_allowSearch = True, f_allowCoding = False\<rparr>
       = (allowSearch sample_state \<and> (0::nat) < 200)"
proof -
  have p: "prompt_flags sample_env sample_args sample_state
     = Inr (0, \<lparr>f_allowReflect = True, f_allowAnswer = True, f_allowRead = False,
                f_allowSearch = True, f_allowCoding = False\<rparr>)"
    by (simp add: prompt_flags_def begin_iteration_def Let_def log_event_def flags_of_def
        sample_state_def sample_env_def sample_args_def trim_hi includesEval_def)
  from C6_allow_flags [OF p] p show ?thesis
    by blast
qed

text \<open>
  Claim C6 as stated fails: with exactly 200 URLs in the list and search left enabled by
  the previous step, the prompt of the iteration does not offer search.
\<close>

theorem C6_exactly_200_counterexample:
  "allowSearch crowded_state
   \<and> prompt_flags sample_env sample_args crowded_state
     = Inr (200, \<lparr>f_allowReflect = True, f_allowAnswer = True, f_allowRead = True,
                  f_allowSearch = False, f_allowCoding = False\<rparr>)"
proof -
  have ne: "sample_urls \<noteq> []"
    using length_sample_urls by auto
  show ?thesis
    using ne
    by (simp add: prompt_flags_def begin_iteration_def Let_def log_event_def flags_of_def
        crowded_state_def sample_state_def sample_env_def sample_args_def trim_hi
        includesEval_def length_sample_urls)
qed

lemma executeSearchQueries_result:
  "executeSearchQueries e hosts kqs s =
     (fst (search_each e (totalStep s) hosts kqs (allURLs s)),
      (log_event (ExecuteSearchQueries (map q kqs)) s)
        \<lparr>allURLs := snd (search_each e (totalStep s) hosts kqs (allURLs s))\<rparr>)"
  by (simp add: executeSearchQueries_def Let_def log_event_def split: prod.splits)

lemma filter_head_holds: "filter P xs = m # ms \<Longrightarrow> P m"
proof -
  assume "filter P xs = m # ms"
  then have "m \<in> set (filter P xs)" by simp
  then show "P m" by simp
qed

lemma match_back_q: "match_back kqs qq = Some m \<Longrightarrow> q m = qq"
  by (auto simp: match_back_def Let_def split: if_splits list.splits
      dest: filter_head_holds)

lemma all_defined_match_back:
  "all_defined (map (match_back kqs) qs) = Some ms \<Longrightarrow> map q ms = qs"
proof (induction qs arbitrary: ms)
  case Nil
  then show ?case by simp
next
  case (Cons x xs)
  then show ?case
    by (cases "match_back kqs x") (auto dest: match_back_q)
qed

text \<open>
  Claim C5 (as amended). On a search dispatch, the first search pass executes the
  model's queries deduplicated against the empty list (so only among themselves) and
  passed through \<open>chooseK\<close> with \<open>MAX_QUERIES_PER_STEP\<close>; \<open>allKeywords\<close> is not consulted
  for it. The second pass executes the rewritten queries deduplicated against
  \<open>allKeywords\<close>, which by then holds the queries searched in the first pass, and passed
  through \<open>chooseK\<close> in the same way; it is skipped when none is left. Both lists have
  at most \<open>MAX_QUERIES_PER_STEP\<close> elements whenever \<open>chooseK\<close> returns at most \<open>k\<close>.
\<close>

theorem C5_first_pass_queries:
  assumes "dispatch_search e a s reqs = Inr s'"
  shows "(let first = chooseK e (dedupQueries e reqs []) (MAX_QUERIES_PER_STEP e);
              searched1 = fst (search_each e (totalStep s) []
                                 (map (\<lambda>x. \<lparr>q = x, tbs = None\<rparr>) first) (allURLs s));
              qOnly = map q (filter (\<lambda>kq. q kq \<noteq> []) (rewriteQuery e (totalStep s)));
              second = chooseK e (dedupQueries e qOnly (allKeywords s @ searched1))
                         (MAX_QUERIES_PER_STEP e)
          in events s' = events s @ [ExecuteSearchQueries first, RewriteQuery]
                 @ (if second = [] then [] else [ExecuteSearchQueries second])
             \<and> ((\<forall>xs k. length (chooseK e xs k) \<le> k)
                  \<longrightarrow> length first \<le> MAX_QUERIES_PER_STEP e \<and> length second \<le> MAX_QUERIES_PER_STEP e))"
  using assms
  by (auto simp: dispatch_search_def executeSearchQueries_result Let_def log_event_def comp_def
      dest!: all_defined_match_back split: if_splits option.splits)

theorem C5_first_pass_queries_witness:
  "\<exists>s'. dispatch_search rewriting_env sample_args sample_state [''a'', ''a'', ''b''] = Inr s'
      \<and> events s' = [ExecuteSearchQueries [''a'', ''b''], RewriteQuery, ExecuteSearchQueries [''c'']]
      \<and> length [''a'', ''b''] \<le> MAX_QUERIES_PER_STEP rewriting_env
      \<and> length [''c''] \<le> MAX_QUERIES_PER_STEP rewriting_env"
proof -
  have "\<exists>s'. dispatch_search rewriting_env sample_args sample_state [''a'', ''a'', ''b''] = Inr s'"
    by (simp add: dispatch_search_def executeSearchQueries_def match_back_def Let_def log_event_def
        rewriting_env_def sample_env_def sample_args_def sample_state_def)
  then obtain s' where d: "dispatch_search rewriting_env sample_args sample_state [''a'', ''a'', ''b''] = Inr s'" ..
  have cap: "\<forall>xs k. length (chooseK rewriting_env xs k) \<le> k"
    by (simp add: rewriting_env_def sample_env_def)
  have f: "chooseK rewriting_env (dedupQueries rewriting_env [''a'', ''a'', ''b''] [])
             (MAX_QUERIES_PER_STEP rewriting_env) = [''a'', ''b'']"
    by (simp add: rewriting_env_def sample_env_def)
  have s1: "fst (search_each rewriting_env (totalStep sample_state) []
                   (map (\<lambda>x. \<lparr>q = x, tbs = None\<rparr>) [''a'', ''b'']) (allURLs sample_state)) = [''a'', ''b'']"
    by (simp add: rewriting_env_def sample_env_def sample_state_def Let_def addToAllURLs_def)
  have sec: "chooseK rewriting_env
               (dedupQueries rewriting_env
                  (map q (filter (\<lambda>kq. q kq \<noteq> []) (rewriteQuery rewriting_env (totalStep sample_state))))
                  (allKeywords sample_state @ [''a'', ''b'']))
               (MAX_QUERIES_PER_STEP rewriting_env) = [''c'']"
    by (simp add: rewriting_env_def sample_env_def sample_state_def)
  have e0: "events sample_state = []"
    by (simp add: sample_state_def)
  from C5_first_pass_queries [OF d] cap
  have "events s' = [ExecuteSearchQueries [''a'', ''b''], RewriteQuery, ExecuteSearchQueries [''c'']]
        \<and> length [''a'', ''b''] \<le> MAX_QUERIES_PER_STEP rewriting_env
        \<and> length [''c''] \<le> MAX_QUERIES_PER_STEP rewriting_env"
    unfolding Let_def f s1 sec e0 by simp
  with d show ?thesis by blast
qed

text \<open>
  Claim C5 as stated fails: with \<open>jina ai\<close> already in \<open>allKeywords\<close>, a search dispatch
  for \<open>jina ai\<close> executes that query again in its first pass, although deduplicating
  against \<open>allKeywords\<close> leaves no query.
\<close>

theorem C5_history_counterexample:
  "map_sum id events (dispatch_search sample_env sample_args
       (sample_state\<lparr>allKeywords := [''jina ai'']\<rparr>) [''jina ai''])
     = Inr [ExecuteSearchQueries [''jina ai''], RewriteQuery]
   \<and> chooseK sample_env (dedupQueries sample_env [''jina ai''] [''jina ai''])
        (MAX_QUERIES_PER_STEP sample_env) = []"
  by (simp add: dispatch_search_def executeSearchQueries_def Let_def log_event_def
      sample_env_def sample_args_def sample_state_def)

lemma init_state_fields:
  assumes "init_state e a = Inr s0"
  shows "totalStep s0 = 0" and "gaps s0 = [question s0]" and "events s0 = []"
  using assms
  by (auto simp: init_state_def split: sum.splits prod.splits)

lemma begin_first:
  assumes "totalStep s0 = 0" and "gaps s0 = [question s0]"
  shows "\<exists>s1 ul. begin_iteration e a s0 = Inr (s1, question s0, ul) \<and> totalStep s1 = 1
           \<and> question s1 = question s0
           \<and> filter is_eval_search_visit (events s1) = filter is_eval_search_visit (events s0)"
  using assms
  by (simp add: begin_iteration_def Let_def log_event_def)

lemma ask_agent_fields:
  "thisStep (ask_agent e s cq) = from_reply (generateObject e (totalStep s))"
  "totalStep (ask_agent e s cq) = totalStep s"
  "filter is_eval_search_visit (events (ask_agent e s cq)) = filter is_eval_search_visit (events s)"
  by (simp_all add: ask_agent_def Let_def log_event_def)

lemma dispatch_trivial:
  assumes "thisStep s = AnswerAction ans refs False" and "ans \<noteq> []" and "totalStep s = 1"
    and "updateReferences e refs = []" and "\<not> arg_noDirectAnswer a"
  shows "dispatch e a s cq ul = Inr (s\<lparr>thisStep := AnswerAction ans [] True, trivialQuestion := True\<rparr>, True)"
  using assms by (simp add: dispatch_def dispatch_answer_def)

text \<open>
  Claim C3 (as amended). In a run with \<open>noDirectAnswer = false\<close> whose first iteration
  is entered, if the model chooses an answer with a non-empty text whose normalized
  reference list is empty, the loop ends in that iteration with \<open>isFinal = true\<close>, no
  answer evaluation, search or page visit has been made, and \<open>getResponse\<close> returns that
  answer.
\<close>

theorem C3_trivial_answer:
  assumes "init_state e a = Inr s0" and "loop_guard a s0" and "\<not> arg_noDirectAnswer a"
    and "generateObject e 1 = AnswerAction ans refs f" and "ans \<noteq> []"
    and "updateReferences e refs = []"
  shows "\<exists>s'. main_loop e a (Suc n) s0 = Some (Inr s') \<and> thisStep s' = AnswerAction ans [] True
           \<and> trivialQuestion s' \<and> filter is_eval_search_visit (events s') = []
           \<and> getResponse e a (Suc n) = Some (Inr (finish a s'))"
proof -
  from init_state_fields [OF assms(1)]
  have t0: "totalStep s0 = 0" and g0: "gaps s0 = [question s0]" and e0: "events s0 = []"
    by simp_all
  from begin_first [OF t0 g0, of e a] obtain s1 ul where
    b: "begin_iteration e a s0 = Inr (s1, question s0, ul)" and t1: "totalStep s1 = 1"
    and e1: "filter is_eval_search_visit (events s1) = filter is_eval_search_visit (events s0)"
    by blast
  let ?s2 = "ask_agent e s1 (question s0)"
  have th2: "thisStep ?s2 = AnswerAction ans refs False"
    using assms(4) by (simp add: ask_agent_fields t1)
  have t2: "totalStep ?s2 = 1"
    by (simp add: ask_agent_fields t1)
  let ?s3 = "?s2\<lparr>thisStep := AnswerAction ans [] True, trivialQuestion := True\<rparr>"
  have d: "dispatch e a ?s2 (question s0) ul = Inr (?s3, True)"
    using dispatch_trivial [OF th2 assms(5) t2 assms(6) assms(3)] .
  have it: "iteration e a s0 = Inr (track_usages e ?s3, True)"
    by (simp add: iteration_def b d)
  have ml: "main_loop e a (Suc n) s0 = Some (Inr (track_usages e ?s3))"
    using assms(2) by (simp add: main_loop_Suc it)
  have ev: "filter is_eval_search_visit (events (track_usages e ?s3)) = []"
    by (simp add: track_usages_def ask_agent_fields e1 e0)
  have gr: "getResponse e a (Suc n) = Some (Inr (finish a (track_usages e ?s3)))"
    by (simp add: getResponse_def run_main_def assms(1) ml track_usages_def)
  show ?thesis
    using ml ev gr by (simp add: track_usages_def)
qed


theorem C3_trivial_answer_witness:
  "\<exists>s'. main_loop sample_env sample_args 1 sample_state = Some (Inr s')
      \<and> thisStep s' = AnswerAction ''hello'' [] True \<and> trivialQuestion s'
      \<and> filter is_eval_search_visit (events s') = []
      \<and> getResponse sample_env sample_args 1 = Some (Inr (finish sample_args s'))"
proof -
  have g: "loop_guard sample_args sample_state"
    by (simp add: loop_guard_def regularBudget_def sample_args_def sample_state_def getTotalUsage_def)
  have n: "\<not> arg_noDirectAnswer sample_args"
    by (simp add: sample_args_def)
  have r: "generateObject sample_env 1 = AnswerAction ''hello'' [] False"
    by (simp add: sample_env_def)
  have u: "updateReferences sample_env [] = []"
    by simp
  from C3_trivial_answer [OF init_sample g n r _ u, of 0] show ?thesis
    by simp
qed

text \<open>
  Claim C3 as stated fails: an answer action with an empty text and no references at
  \<open>totalStep = 1\<close> is not accepted; the iteration ends without \<open>break\<close> and
  \<open>isFinal\<close> stays false.
\<close>

theorem C3_empty_answer_counterexample:
  "generateObject silent_env 1 = AnswerAction [] [] False
   \<and> updateReferences silent_env [] = []
   \<and> map_sum id (apfst thisStep) (iteration silent_env sample_args sample_state)
       = Inr (AnswerAction [] [] False, False)"
  by (simp add: iteration_def begin_iteration_def ask_agent_def dispatch_def Let_def
      log_event_def track_usages_def flags_of_def includesEval_def trim_hi
      silent_env_def sample_env_def sample_args_def sample_state_def)

lemma indexOf_nonneg: "y \<in> set xs \<Longrightarrow> 0 \<le> indexOf xs y"
  by (induction xs) (auto simp: Let_def)

lemma indexOf_positive: "y \<in> set xs \<Longrightarrow> hd xs \<noteq> y \<Longrightarrow> 0 < indexOf xs y"
  using indexOf_nonneg [of y "tl xs"]
  by (cases xs) (auto simp: Let_def)

lemma splice1_keeps_head:
  "0 < i \<Longrightarrow> xs \<noteq> [] \<Longrightarrow> splice1 xs i \<noteq> [] \<and> hd (splice1 xs i) = hd xs"
  by (cases xs) (auto simp: splice1_def Let_def take_Cons' )

lemma run_processURLs_keeps [simp]:
  "gaps (run_processURLs e us s) = gaps s" "question (run_processURLs e us s) = question s"
  "evaluationMetrics (run_processURLs e us s) = evaluationMetrics s"
  by (simp_all add: run_processURLs_def log_event_def split: prod.splits)

lemma set_isFinal_keeps [simp]:
  "gaps (set_isFinal f s) = gaps s" "question (set_isFinal f s) = question s"
  by (simp_all add: set_isFinal_def split: StepAction.splits)

lemma dispatch_answer_head:
  assumes "dispatch_answer e a s cq ans refs = Inr (s', brk)"
    and "gaps s \<noteq> []" and "hd (gaps s) = question s" and "trim (question s) = question s"
    and "cq \<in> set (gaps s)"
  shows "gaps s' \<noteq> [] \<and> hd (gaps s') = question s' \<and> question s' = question s"
proof -
  have pos: "trim cq \<noteq> question s \<Longrightarrow> 0 < indexOf (gaps s) cq"
    using assms(3,4,5) by (intro indexOf_positive) auto
  show ?thesis
    using assms(1,2,3) pos splice1_keeps_head [of "indexOf (gaps s) cq" "gaps s"]
    by (auto simp: dispatch_answer_def Let_def log_event_def
        split: if_splits option.splits)
qed


lemma begin_iteration_question:
  assumes "begin_iteration e a s = Inr (s', cq, ul)"
  shows "gaps s \<noteq> []" and "cq = gaps s ! ((totalStep s + 1) mod length (gaps s))"
    and "totalStep s' = totalStep s + 1" and "gaps s' = gaps s" and "question s' = question s"
  using assms
  by (auto simp: begin_iteration_def Let_def log_event_def split: if_splits)

lemma ask_agent_keeps [simp]:
  "gaps (ask_agent e s cq) = gaps s" "question (ask_agent e s cq) = question s"
  by (simp_all add: ask_agent_def Let_def log_event_def)

lemma executeSearchQueries_keeps:
  "executeSearchQueries e hosts kqs s = (searched, s') \<Longrightarrow> gaps s' = gaps s \<and> question s' = question s"
  by (auto simp: executeSearchQueries_def Let_def log_event_def split: prod.splits)

lemma dispatch_search_keeps:
  assumes "dispatch_search e a s reqs = Inr s'"
  shows "gaps s' = gaps s \<and> question s' = question s"
  using assms
  by (auto simp: dispatch_search_def Let_def log_event_def
      dest!: executeSearchQueries_keeps split: if_splits option.splits prod.splits)

lemma dispatch_head:
  assumes "dispatch e a s cq ul = Inr (s', brk)"
    and "gaps s \<noteq> []" and "hd (gaps s) = question s" and "trim (question s) = question s"
    and "cq \<in> set (gaps s)"
  shows "gaps s' \<noteq> [] \<and> hd (gaps s') = question s' \<and> question s' = question s"
proof (cases "thisStep s")
  case (AnswerAction ans refs f)
  with assms show ?thesis
    by (auto simp: dispatch_def dest: dispatch_answer_head split: if_splits)
next
  case (ReflectAction qs)
  with assms show ?thesis
    by (auto simp: dispatch_def dispatch_reflect_def Let_def split: if_splits)
next
  case (SearchAction reqs)
  with assms show ?thesis
    by (auto simp: dispatch_def dest!: dispatch_search_keeps split: sum.splits)
next
  case (VisitAction ts)
  with assms show ?thesis
    by (auto simp: dispatch_def dispatch_visit_def Let_def split: if_splits)
next
  case (CodingAction issue)
  with assms show ?thesis
    by (auto simp: dispatch_def dispatch_coding_def log_event_def split: if_splits)
qed

lemma iteration_head:
  assumes "iteration e a s = Inr (s', brk)"
    and "gaps s \<noteq> []" and "hd (gaps s) = question s" and "trim (question s) = question s"
  shows "gaps s' \<noteq> [] \<and> hd (gaps s') = question s' \<and> question s' = question s"
proof -
  from assms(1) obtain s1 cq ul s2 where
    b: "begin_iteration e a s = Inr (s1, cq, ul)"
    and d: "dispatch e a (ask_agent e s1 cq) cq ul = Inr (s2, brk)"
    and s': "s' = track_usages e s2"
    by (auto simp: iteration_def split: sum.splits prod.splits)
  from begin_iteration_question [OF b]
  have cq: "cq = gaps s ! ((totalStep s + 1) mod length (gaps s))"
    and g1: "gaps s1 = gaps s" and q1: "question s1 = question s"
    by simp_all
  have mem: "cq \<in> set (gaps s)"
    using assms(2) by (simp add: cq)
  from dispatch_head [OF d] assms(2,3,4) mem g1 q1
  have "gaps s2 \<noteq> [] \<and> hd (gaps s2) = question s2 \<and> question s2 = question s"
    by simp
  then show ?thesis
    by (simp add: s' track_usages_def)
qed

lemma iteration_starts_head:
  assumes "s \<in> set (iteration_starts e a n s0)"
    and "gaps s0 \<noteq> []" and "hd (gaps s0) = question s0" and "trim (question s0) = question s0"
  shows "gaps s \<noteq> [] \<and> hd (gaps s) = question s0"
  using assms
proof (induction n arbitrary: s0)
  case 0
  then show ?case by (simp add: iteration_starts_def)
next
  case (Suc n)
  show ?case
  proof (cases "s = s0")
    case True
    with Suc.prems show ?thesis by simp
  next
    case False
    with Suc.prems(1) obtain s1 where
      it: "iteration e a s0 = Inr (s1, False)" and m: "s \<in> set (iteration_starts e a n s1)"
      by (auto simp: iteration_starts_def split: if_splits sum.splits prod.splits)
    from iteration_head [OF it Suc.prems(2,3,4)]
    have h: "gaps s1 \<noteq> []" "hd (gaps s1) = question s1" "question s1 = question s0"
      by simp_all
    from Suc.IH [OF m h(1) h(2)] h(3) Suc.prems(4) show ?thesis
      by simp
  qed
qed

text \<open>
  The question of an iteration is \<open>gaps[totalStep % gaps.length]\<close>; and in a run whose
  question is free of surrounding white space, every iteration begins with the question
  at index 0 of \<open>gaps\<close>.
\<close>

lemma gaps_keep_question_when_trimmed:
  assumes "init_state e a = Inr s0" and "trim (question s0) = question s0"
    and "s \<in> set (run_starts e a n)"
  shows "gaps s \<noteq> [] \<and> gaps s ! 0 = question s0"
proof -
  from init_state_fields [OF assms(1)] have g: "gaps s0 = [question s0]"
    by simp
  from assms(1,3) have m: "s \<in> set (iteration_starts e a n s0)"
    by (simp add: run_starts_def)
  from iteration_starts_head [OF m _ _ assms(2)] g show ?thesis
    by (auto simp: hd_conv_nth)
qed

text \<open>
  Claim C4 fails on the code. The last user message is an array whose text part is
  \<open> hi\<close>; the question is taken from it without trimming. In the first iteration the
  current question \<open> hi\<close>, trimmed, differs from the question, so it is handled as a
  sub-question: the model's answer, which cites a page, passes without criteria and
  \<open>gaps.splice\<close> removes index 0. The second iteration begins with \<open>gaps\<close> empty and
  throws at \<open>currentQuestion.trim()\<close>.
\<close>

theorem C4_original_question_removed:
  "map question (run_starts citing_env padded_args 2) = ['' hi'', '' hi'']
   \<and> map gaps (run_starts citing_env padded_args 2) = [['' hi''], []]
   \<and> getResponse citing_env padded_args 2 = Some (Inl TypeError)"
  by (simp add: run_starts_def getResponse_def run_main_def init_state_def extract_question_def
      iteration_starts_Suc iteration_starts_0 main_loop_Suc main_loop_0 numeral_2_eq_2
      iteration_def begin_iteration_def ask_agent_def dispatch_def dispatch_answer_def
      run_processURLs_def splice1_def
      Let_def log_event_def track_usages_def flags_of_def includesEval_def
      loop_guard_def regularBudget_def getTotalUsage_def trackUsage_def newTokenTracker_def
      trim_def is_ws_def
      citing_env_def padded_args_def sample_env_def sample_args_def)

lemma getResponse_not_final:
  assumes "run_main e a n = Some (Inr s)" and "\<not> isFinal (thisStep s)"
  shows "getResponse e a n = Some (Inl ReferenceError)"
  using assms
  by (simp add: getResponse_def beast_mode_def read_identifier_def bound_identifiers_def)

text \<open>
  Claim C1 fails on the code. With a token budget of 0 the loop does not run, and with
  a budget of 20 it ends after one iteration in which an empty answer was given; in both
  runs \<open>isFinal\<close> is false after the loop. The forced-answer branch then throws while it
  evaluates the arguments of its call: no model call is made and \<open>getResponse\<close> is
  rejected with a \<open>ReferenceError\<close> instead of returning an answer.
\<close>

theorem C1_forced_answer_throws:
  "getResponse sample_env (sample_args\<lparr>arg_tokenBudget := 0\<rparr>) 1 = Some (Inl ReferenceError)
   \<and> getResponse silent_env (sample_args\<lparr>arg_tokenBudget := 20\<rparr>) 1 = Some (Inl ReferenceError)"
proof
  have "run_main sample_env (sample_args\<lparr>arg_tokenBudget := 0\<rparr>) 1
          = Some (Inr (sample_state\<lparr>tokenTracker := \<lparr>usages = [], budget = Some 0\<rparr>\<rparr>))"
    by (simp add: run_main_def init_state_def extract_question_def main_loop_Suc
        loop_guard_def regularBudget_def getTotalUsage_def newTokenTracker_def trim_hi
        sample_env_def sample_args_def sample_state_def)
  then show "getResponse sample_env (sample_args\<lparr>arg_tokenBudget := 0\<rparr>) 1 = Some (Inl ReferenceError)"
    by (rule getResponse_not_final) (simp add: sample_state_def)
  have "map_option (map_sum id thisStep) (run_main silent_env (sample_args\<lparr>arg_tokenBudget := 20\<rparr>) 1)
          = Some (Inr (AnswerAction [] [] False))"
    by (simp add: run_main_def init_state_def extract_question_def main_loop_Suc main_loop_0
        iteration_def begin_iteration_def ask_agent_def dispatch_def Let_def
        log_event_def track_usages_def flags_of_def includesEval_def trim_hi
        loop_guard_def regularBudget_def getTotalUsage_def trackUsage_def newTokenTracker_def
        silent_env_def sample_env_def sample_args_def)
  then obtain s where r: "run_main silent_env (sample_args\<lparr>arg_tokenBudget := 20\<rparr>) 1 = Some (Inr s)"
    and th: "thisStep s = AnswerAction [] [] False"
    by (cases "run_main silent_env (sample_args\<lparr>arg_tokenBudget := 20\<rparr>) 1")
       (auto simp: map_sum_def split: sum.splits)
  have "\<not> isFinal (thisStep s)"
    by (simp add: th)
  with r show "getResponse silent_env (sample_args\<lparr>arg_tokenBudget := 20\<rparr>) 1 = Some (Inl ReferenceError)"
    by (rule getResponse_not_final)
qed


end
